theory Spec2Isabelle
  imports Complex_Main
begin

section \<open>Python values\<close>

text \<open>
  One datatype for the Python objects the two servers handle: what \<^verbatim>\<open>json.loads\<close>
  returns (None, bool, int, float, str, list, dict with string keys) and the values a
  database driver puts into a row. A dict is an association list in insertion order,
  read with \<open>map_of\<close>. A float is a real number (NaN and the infinities that
  \<^verbatim>\<open>json.loads\<close> accepts have no representative). A \<^verbatim>\<open>datetime\<close> is
  represented by the text its \<^verbatim>\<open>isoformat()\<close> returns. A \<^verbatim>\<open>str\<close> is the list
  of the bytes of its UTF-8 encoding: equality, emptiness, concatenation and
  \<^verbatim>\<open>startswith\<close> with an ASCII prefix are then Python's. The builtins that look at
  the characters (\<^verbatim>\<open>strip\<close>, \<^verbatim>\<open>lower\<close>, \<^verbatim>\<open>split\<close>, \<^verbatim>\<open>isdigit\<close>, \<^verbatim>\<open>int\<close>)
  follow the Unicode tables and are parameters of the model (see \<open>env\<close>).
\<close>

datatype pyval =
    PNone
  | PBool bool
  | PInt int
  | PFloat real
  | PStr string
  | PList "pyval list"
  | PDict "(string \<times> pyval) list"
  | PDatetime string
  | POther string

type_synonym pydict = "(string \<times> pyval) list"

text \<open>Truth value of an object, as \<^verbatim>\<open>not sql\<close> tests it.\<close>

fun truthy :: "pyval \<Rightarrow> bool" where
  "truthy PNone = False"
| "truthy (PBool b) = b"
| "truthy (PInt i) = (i \<noteq> 0)"
| "truthy (PFloat r) = (r \<noteq> 0)"
| "truthy (PStr s) = (s \<noteq> [])"
| "truthy (PList xs) = (xs \<noteq> [])"
| "truthy (PDict d) = (d \<noteq> [])"
| "truthy (PDatetime t) = True"
| "truthy (POther t) = True"

fun type_name :: "pyval \<Rightarrow> string" where
  "type_name PNone = ''NoneType''"
| "type_name (PBool b) = ''bool''"
| "type_name (PInt i) = ''int''"
| "type_name (PFloat r) = ''float''"
| "type_name (PStr s) = ''str''"
| "type_name (PList xs) = ''list''"
| "type_name (PDict d) = ''dict''"
| "type_name (PDatetime t) = ''datetime.datetime''"
| "type_name (POther t) = t"

definition quote :: "string \<Rightarrow> string" where
  "quote s = CHR 0x27 # s @ [CHR 0x27]"

text \<open>
  A raised exception is the left summand, carrying \<^verbatim>\<open>str(e)\<close>; every handler of
  the source that catches it uses only that text.
\<close>

definition no_attribute :: "pyval \<Rightarrow> string \<Rightarrow> string" where
  "no_attribute v a = quote (type_name v) @ '' object has no attribute '' @ quote a"

text \<open>\<^verbatim>\<open>d[k]\<close> on a dict: KeyError when the key is absent, whose text is the quoted key.\<close>

definition getitem :: "pydict \<Rightarrow> string \<Rightarrow> string + pyval" where
  "getitem d k = (case map_of d k of None \<Rightarrow> Inl (quote k) | Some v \<Rightarrow> Inr v)"

text \<open>\<^verbatim>\<open>v.get(k, dflt)\<close>: AttributeError unless \<open>v\<close> is a dict.\<close>

definition py_get :: "pyval \<Rightarrow> string \<Rightarrow> pyval \<Rightarrow> string + pyval" where
  "py_get v k dflt =
     (case v of
        PDict d \<Rightarrow> Inr (case map_of d k of None \<Rightarrow> dflt | Some x \<Rightarrow> x)
      | _ \<Rightarrow> Inl (no_attribute v ''get''))"

text \<open>\<^verbatim>\<open>d[k] = v\<close>: replaces in place, or appends a new key.\<close>

fun dict_set :: "pydict \<Rightarrow> string \<Rightarrow> pyval \<Rightarrow> pydict" where
  "dict_set [] k v = [(k, v)]"
| "dict_set (p # ps) k v = (if fst p = k then (k, v) # ps else p # dict_set ps k v)"

definition py_dict :: "(string \<times> pyval) list \<Rightarrow> pydict" where
  "py_dict kvs = foldl (\<lambda>d (k, v). dict_set d k v) [] kvs"

section \<open>Strings\<close>

definition startswith :: "string \<Rightarrow> string \<Rightarrow> bool" where
  "startswith s p = (take (length p) s = p)"

definition digit_char :: "nat \<Rightarrow> char" where
  "digit_char d = ''0123456789'' ! d"

text \<open>Decimal rendering of an integer, as \<^verbatim>\<open>str(n)\<close> and an f-string print it.\<close>

fun show_nat :: "nat \<Rightarrow> string" where
  "show_nat n = (if n < 10 then [digit_char n] else show_nat (n div 10) @ [digit_char (n mod 10)])"

declare show_nat.simps [simp del]

definition show_int :: "int \<Rightarrow> string" where
  "show_int i = (if i < 0 then CHR ''-'' # show_nat (nat (- i)) else show_nat (nat i))"

section \<open>Library behaviour taken as parameters\<close>

text \<open>
  What \<^verbatim>\<open>json.loads\<close> does with a text: it returns a value, raises JSONDecodeError,
  or raises something else (RecursionError on deep nesting, ValueError on an integer
  literal with too many digits); \<open>Fault\<close> carries the text of that exception.
\<close>

datatype parse = Parsed pyval | DecodeError | Fault string

text \<open>
  \<open>loads\<close> is \<^verbatim>\<open>json.loads\<close>; \<open>dumps\<close> is
  \<^verbatim>\<open>json.dumps(v, indent=2, default=str)\<close>; \<open>repr_of\<close> is \<^verbatim>\<open>str()\<close> on floats,
  containers and driver objects; \<open>unsliceable\<close> is the text of the exception that
  \<^verbatim>\<open>v[:100]\<close> raises on a value that cannot be sliced. \<open>str_strip\<close>, \<open>str_lower\<close>,
  \<open>str_split\<close> and \<open>str_isdigit\<close> are \<^verbatim>\<open>s.strip()\<close>, \<^verbatim>\<open>s.lower()\<close>, \<^verbatim>\<open>s.split()\<close>
  and \<^verbatim>\<open>s.isdigit()\<close>, with Python's own notion of white space, case and digit;
  \<open>int_of_str\<close> is \<^verbatim>\<open>int(s)\<close>, which returns the number or raises ValueError (the
  left summand, with its text), as it does on a string such as a superscript two that
  \<^verbatim>\<open>isdigit()\<close> accepts.
\<close>

record env =
  loads :: "string \<Rightarrow> parse"
  dumps :: "pyval \<Rightarrow> string"
  repr_of :: "pyval \<Rightarrow> string"
  unsliceable :: "pyval \<Rightarrow> string"
  str_strip :: "string \<Rightarrow> string"
  str_lower :: "string \<Rightarrow> string"
  str_split :: "string \<Rightarrow> string list"
  str_isdigit :: "string \<Rightarrow> bool"
  int_of_str :: "string \<Rightarrow> string + int"

text \<open>\<^verbatim>\<open>str(v)\<close>, as an f-string formats a value.\<close>

definition py_str :: "env \<Rightarrow> pyval \<Rightarrow> string" where
  "py_str e v =
     (case v of
        PNone \<Rightarrow> ''None''
      | PBool b \<Rightarrow> (if b then ''True'' else ''False'')
      | PInt i \<Rightarrow> show_int i
      | PStr s \<Rightarrow> s
      | _ \<Rightarrow> repr_of e v)"

section \<open>The database as seen by a server\<close>

text \<open>
  \<open>contacts\<close> counts the calls that reach the driver (\<^verbatim>\<open>psycopg2.connect\<close>,
  \<^verbatim>\<open>db_pool.acquire\<close>), \<open>held\<close> the connections to the database that are open (or
  checked out of the pool) at this moment, \<open>sent\<close> the statements handed to the engine,
  in order.
\<close>

record world =
  contacts :: nat
  held :: nat
  sent :: "pyval list"

text \<open>
  What the psycopg2 driver does on one call of \<^verbatim>\<open>query_db\<close>: each step that can raise
  either raises (with the text of the exception) or succeeds. \<open>fetched\<close> stands for
  \<^verbatim>\<open>cur.fetchall()\<close> together with \<^verbatim>\<open>cur.description\<close>: the column names and the
  rows. \<^verbatim>\<open>conn.cursor()\<close>, \<^verbatim>\<open>cur.close()\<close> and \<^verbatim>\<open>conn.close()\<close> do not raise.
  The driver is indexed by the number of earlier contacts, so its behaviour may change
  from one call to the next.
\<close>

record pg_run =
  connect_exn :: "string option"
  execute_exn :: "string option"
  fetched :: "string + (string list \<times> pyval list list)"
  commit_exn :: "string option"

type_synonym pg_driver = "nat \<Rightarrow> pyval \<Rightarrow> pg_run"

section \<open>query_tool.py\<close>

definition sliceable :: "pyval \<Rightarrow> bool" where
  "sliceable v = (case v of PStr s \<Rightarrow> True | PList xs \<Rightarrow> True | _ \<Rightarrow> False)"

definition qerror :: "string \<Rightarrow> pydict" where
  "qerror e = [(''error'', PStr e)]"

text \<open>
  \<^verbatim>\<open>query_db\<close>. The whole body is inside \<^verbatim>\<open>try\<close>; \<^verbatim>\<open>except Exception\<close> returns
  \<^verbatim>\<open>{"error": str(e)}\<close>. \<open>w1\<close> is the world once \<^verbatim>\<open>psycopg2.connect\<close> has been
  called, \<open>w2\<close> once the connection is open and the statement handed to
  \<^verbatim>\<open>cur.execute\<close>. The connection is closed in two ways. On the path without
  exception \<^verbatim>\<open>conn.close()\<close> is called (\<open>closed\<close>). On a path where a later step raises,
  \<^verbatim>\<open>conn.close()\<close> is skipped; \<^verbatim>\<open>conn\<close> is a local variable that nothing else refers
  to, so when the function returns from its \<^verbatim>\<open>except\<close> clause the interpreter
  finalises the connection object, and psycopg2 closes the connection to the server
  then (\<open>finalised\<close>). Either way no connection of the call is open once it has returned.
\<close>

definition query_db :: "env \<Rightarrow> pg_driver \<Rightarrow> pyval \<Rightarrow> world \<Rightarrow> pydict \<times> world" where
  "query_db e drv sql w =
     (if \<not> sliceable sql then (qerror (unsliceable e sql), w)
      else
        (let r = drv (contacts w) sql;
             w1 = w\<lparr>contacts := Suc (contacts w)\<rparr>;
             w2 = w1\<lparr>held := Suc (held w1), sent := sent w1 @ [sql]\<rparr>;
             closed = w2\<lparr>held := held w2 - 1\<rparr>;
             finalised = w2\<lparr>held := held w2 - 1\<rparr>
         in (case connect_exn r of
               Some x \<Rightarrow> (qerror x, w1)
             | None \<Rightarrow>
                 (case execute_exn r of
                    Some x \<Rightarrow> (qerror x, finalised)
                  | None \<Rightarrow>
                      (case sql of
                         PStr s \<Rightarrow>
                           (if startswith (str_lower e (str_strip e s)) ''select'' then
                              (case fetched r of
                                 Inl x \<Rightarrow> (qerror x, finalised)
                               | Inr (cols, rows) \<Rightarrow>
                                   ([(''result'',
                                      PList (map (\<lambda>row. PDict (py_dict (zip cols row))) rows))],
                                    closed))
                            else
                              (case commit_exn r of
                                 Some x \<Rightarrow> (qerror x, finalised)
                               | None \<Rightarrow>
                                   ([(''result'',
                                      PDict [(''status'', PStr ''Query executed successfully'')])],
                                    closed)))
                       | _ \<Rightarrow> (qerror (no_attribute sql ''strip''), finalised))))))"

definition result_frame :: "pyval \<Rightarrow> pyval \<Rightarrow> pydict" where
  "result_frame i r = [(''jsonrpc'', PStr ''2.0''), (''id'', i), (''result'', r)]"

definition error_frame :: "pyval \<Rightarrow> int \<Rightarrow> string \<Rightarrow> pydict" where
  "error_frame i code msg =
     [(''jsonrpc'', PStr ''2.0''), (''id'', i),
      (''error'', PDict [(''code'', PInt code), (''message'', PStr msg)])]"

definition handle_initialize :: "pydict \<Rightarrow> string + pydict" where
  "handle_initialize req =
     (case getitem req ''id'' of
        Inl x \<Rightarrow> Inl x
      | Inr i \<Rightarrow>
          Inr (result_frame i
            (PDict [(''protocolVersion'', PStr ''2024-11-05''),
                    (''capabilities'', PDict [(''tools'', PDict [])]),
                    (''serverInfo'', PDict [(''name'', PStr ''postgres-query-server''),
                                            (''version'', PStr ''1.0.0'')])])))"

definition tool_descriptor :: pyval where
  "tool_descriptor =
     PDict [(''name'', PStr ''query_database''),
            (''description'',
               PStr ''Execute a SQL query on the PostgreSQL database and return results''),
            (''inputSchema'',
               PDict [(''type'', PStr ''object''),
                      (''properties'',
                         PDict [(''sql'',
                                  PDict [(''type'', PStr ''string''),
                                         (''description'', PStr ''The SQL query to execute'')])]),
                      (''required'', PList [PStr ''sql''])])]"

definition handle_tools_list :: "pydict \<Rightarrow> string + pydict" where
  "handle_tools_list req =
     (case getitem req ''id'' of
        Inl x \<Rightarrow> Inl x
      | Inr i \<Rightarrow> Inr (result_frame i (PDict [(''tools'', PList [tool_descriptor])])))"

text \<open>
  \<^verbatim>\<open>handle_tools_call\<close>: the response, or the exception it raises, and the world after
  it (the query may have run before \<^verbatim>\<open>req["id"]\<close> raises).
\<close>

definition handle_tools_call ::
  "env \<Rightarrow> pg_driver \<Rightarrow> pydict \<Rightarrow> world \<Rightarrow> (string + pydict) \<times> world" where
  "handle_tools_call e drv req w =
     (let params = (case map_of req ''params'' of None \<Rightarrow> PDict [] | Some p \<Rightarrow> p)
      in case py_get params ''name'' PNone of
           Inl x \<Rightarrow> (Inl x, w)
         | Inr tool_name \<Rightarrow>
             (case py_get params ''arguments'' (PDict []) of
                Inl x \<Rightarrow> (Inl x, w)
              | Inr arguments \<Rightarrow>
                  if tool_name \<noteq> PStr ''query_database'' then
                    (case getitem req ''id'' of
                       Inl x \<Rightarrow> (Inl x, w)
                     | Inr i \<Rightarrow>
                         (Inr (error_frame i (- 32602) (''Unknown tool: '' @ py_str e tool_name)), w))
                  else
                    (case py_get arguments ''sql'' (PStr []) of
                       Inl x \<Rightarrow> (Inl x, w)
                     | Inr sql \<Rightarrow>
                         if \<not> truthy sql then
                           (case getitem req ''id'' of
                              Inl x \<Rightarrow> (Inl x, w)
                            | Inr i \<Rightarrow>
                                (Inr (error_frame i (- 32602) ''Missing required parameter: sql''), w))
                         else
                           (let (result, w') = query_db e drv sql w
                            in case getitem req ''id'' of
                                 Inl x \<Rightarrow> (Inl x, w')
                               | Inr i \<Rightarrow>
                                   (case map_of result ''error'' of
                                      Some err \<Rightarrow>
                                        (Inr (error_frame i (- 32001)
                                                (''Database error: '' @ py_str e err)), w')
                                    | None \<Rightarrow>
                                        (case getitem result ''result'' of
                                           Inl x \<Rightarrow> (Inl x, w')
                                         | Inr res \<Rightarrow>
                                             (Inr (result_frame i
                                                (PDict [(''content'',
                                                   PList [PDict [(''type'', PStr ''text''),
                                                                 (''text'', PStr (dumps e res))]])])),
                                              w')))))))"

text \<open>
  \<^verbatim>\<open>send_error_response\<close>: the frames it prints (one, or none for a request without
  an id or with a null id).
\<close>

definition send_error_response :: "pydict \<Rightarrow> int \<Rightarrow> string \<Rightarrow> pydict list" where
  "send_error_response req code message =
     (case map_of req ''id'' of
        None \<Rightarrow> []
      | Some i \<Rightarrow> if i \<noteq> PNone then [error_frame i code message] else [])"

text \<open>
  The body of the \<^verbatim>\<open>try\<close> in \<^verbatim>\<open>main\<close> after \<^verbatim>\<open>json.loads\<close>: the frames printed,
  or the exception raised (nothing is printed before an exception).
\<close>

definition dispatch ::
  "env \<Rightarrow> pg_driver \<Rightarrow> pyval \<Rightarrow> world \<Rightarrow> (string + pydict list) \<times> world" where
  "dispatch e drv req w =
     (case py_get req ''method'' PNone of
        Inl x \<Rightarrow> (Inl x, w)
      | Inr method \<Rightarrow>
          (case req of
             PDict d \<Rightarrow>
               if method = PStr ''initialize'' then
                 (case handle_initialize d of Inl x \<Rightarrow> (Inl x, w) | Inr resp \<Rightarrow> (Inr [resp], w))
               else if method = PStr ''tools/list'' then
                 (case handle_tools_list d of Inl x \<Rightarrow> (Inl x, w) | Inr resp \<Rightarrow> (Inr [resp], w))
               else if method = PStr ''tools/call'' then
                 (case handle_tools_call e drv d w of
                    (Inl x, w') \<Rightarrow> (Inl x, w')
                  | (Inr resp, w') \<Rightarrow> (Inr [resp], w'))
               else if method = PStr ''resources/list'' then
                 (case getitem d ''id'' of
                    Inl x \<Rightarrow> (Inl x, w)
                  | Inr i \<Rightarrow> (Inr [result_frame i (PDict [(''resources'', PList [])])], w))
               else if method = PStr ''prompts/list'' then
                 (case getitem d ''id'' of
                    Inl x \<Rightarrow> (Inl x, w)
                  | Inr i \<Rightarrow> (Inr [result_frame i (PDict [(''prompts'', PList [])])], w))
               else
                 (Inr (send_error_response d (- 32601)
                         (''Method '' @ py_str e method @ '' not found.'')), w)
           | _ \<Rightarrow> (Inl (no_attribute req ''get''), w)))"

text \<open>
  The id the \<^verbatim>\<open>except Exception\<close> clause of \<^verbatim>\<open>main\<close> answers with:
  \<^verbatim>\<open>req.get("id") if isinstance(req, dict) else None\<close>.
\<close>

definition req_id_of :: "pyval \<Rightarrow> pyval" where
  "req_id_of req =
     (case req of
        PDict d \<Rightarrow> (case map_of d ''id'' of None \<Rightarrow> PNone | Some i \<Rightarrow> i)
      | _ \<Rightarrow> PNone)"

text \<open>
  One iteration of the loop on a line that is not the end of the stream. \<^verbatim>\<open>req\<close> is a
  local variable of \<^verbatim>\<open>main\<close> that lives across iterations: it is unbound (\<open>None\<close>)
  until a line has been parsed, and keeps the last parsed value afterwards. An iteration
  either prints frames (each the object handed to \<^verbatim>\<open>json.dumps\<close> and printed on a line
  of its own) and leaves \<^verbatim>\<open>req\<close> in a new state, or lets an exception out of \<^verbatim>\<open>main\<close>.
  When \<^verbatim>\<open>json.loads\<close> raises something other than JSONDecodeError, the
  \<^verbatim>\<open>except Exception\<close> clause reads \<^verbatim>\<open>req\<close>: the value of an earlier line, or, if
  there is none, an UnboundLocalError that nothing catches. The lines are text:
  \<^verbatim>\<open>readline\<close> itself raises nothing.
\<close>

datatype step = Printed "pydict list" "pyval option" | Uncaught

definition process_line ::
  "env \<Rightarrow> pg_driver \<Rightarrow> pyval option \<Rightarrow> string \<Rightarrow> world \<Rightarrow> step \<times> world" where
  "process_line e drv bound line w =
     (let l = str_strip e line
      in if l = [] then (Printed [] bound, w)
         else
           (case loads e l of
              DecodeError \<Rightarrow> (Printed [error_frame PNone (- 32700) ''Parse error''] bound, w)
            | Fault x \<Rightarrow>
                (case bound of
                   None \<Rightarrow> (Uncaught, w)
                 | Some old \<Rightarrow>
                     (Printed [error_frame (req_id_of old) (- 32603) (''Internal error: '' @ x)]
                        bound, w))
            | Parsed req \<Rightarrow>
                (case dispatch e drv req w of
                   (Inr frames, w') \<Rightarrow> (Printed frames (Some req), w')
                 | (Inl x, w') \<Rightarrow>
                     (Printed [error_frame (req_id_of req) (- 32603) (''Internal error: '' @ x)]
                        (Some req), w'))))"

text \<open>
  \<^verbatim>\<open>main\<close>: standard input is the list of lines \<^verbatim>\<open>readline\<close> returns; the empty
  string is the end of the stream. The loop ends at the end of the stream (\<open>Eof\<close>) or
  with the uncaught exception (\<open>Crashed\<close>); the frames are those printed until then.
\<close>

datatype exit = Eof | Crashed

fun main_loop ::
  "env \<Rightarrow> pg_driver \<Rightarrow> pyval option \<Rightarrow> string list \<Rightarrow> world \<Rightarrow> pydict list \<times> exit \<times> world" where
  "main_loop e drv bound [] w = ([], Eof, w)"
| "main_loop e drv bound (line # rest) w =
     (if line = [] then ([], Eof, w)
      else
        (case process_line e drv bound line w of
           (Uncaught, w1) \<Rightarrow> ([], Crashed, w1)
         | (Printed out bound', w1) \<Rightarrow>
             (let (outs, ex, w2) = main_loop e drv bound' rest w1
              in (out @ outs, ex, w2))))"

definition main :: "env \<Rightarrow> pg_driver \<Rightarrow> string list \<Rightarrow> world \<Rightarrow> pydict list \<times> exit \<times> world" where
  "main e drv lines w = main_loop e drv None lines w"

section \<open>mcp_server2.py\<close>

text \<open>
  What the asyncpg pool and connection do on one call of \<^verbatim>\<open>execute_query\<close>:
  \<^verbatim>\<open>db_pool.acquire()\<close> raises or gives a connection, \<^verbatim>\<open>conn.fetch\<close> raises or
  returns the rows (each the list of its \<^verbatim>\<open>items()\<close>), \<^verbatim>\<open>conn.execute\<close> raises or
  returns the status text.
\<close>

record pool_run =
  acquire_exn :: "string option"
  fetch_res :: "string + (string \<times> pyval) list list"
  execute_res :: "string + string"

type_synonym pool_driver = "nat \<Rightarrow> string \<Rightarrow> pool_run"

text \<open>
  The dict \<^verbatim>\<open>execute_query\<close> returns is a tagged union on its keys
  \<^verbatim>\<open>success\<close> and \<^verbatim>\<open>type\<close>: \<open>Rows rows row_count\<close>,
  \<open>Modification message affected_rows\<close>, \<open>Failure error sql\<close>.
\<close>

datatype query_result =
    Rows "pydict list" int
  | Modification string int
  | Failure string string

fun convert_value :: "pyval \<Rightarrow> pyval" where
  "convert_value (PDatetime t) = PStr t"
| "convert_value v = v"

definition convert_row :: "(string \<times> pyval) list \<Rightarrow> pydict" where
  "convert_row row = foldl (\<lambda>d (key, val). dict_set d key (convert_value val)) [] row"

text \<open>
  The row count read off the status text of \<^verbatim>\<open>conn.execute\<close>; \<^verbatim>\<open>int(parts[-1])\<close>
  may raise ValueError.
\<close>

definition row_count_of :: "env \<Rightarrow> string \<Rightarrow> string + int" where
  "row_count_of e result =
     (if result \<noteq> [] then
        (let parts = str_split e result
         in if 2 \<le> length parts \<and> str_isdigit e (last parts)
            then int_of_str e (last parts) else Inr 0)
      else Inr 0)"

text \<open>
  \<^verbatim>\<open>execute_query\<close>. \<^verbatim>\<open>async with db_pool.acquire() as conn\<close> gives the connection
  back when its block is left, by \<^verbatim>\<open>return\<close> or by an exception: \<open>w2\<close> is the world
  inside the block, \<open>w3\<close> the world after it. Every exception raised in the block or by
  \<^verbatim>\<open>acquire\<close> is turned into the failure outcome by \<^verbatim>\<open>except Exception\<close>.
\<close>

definition execute_query ::
  "env \<Rightarrow> pool_driver \<Rightarrow> string \<Rightarrow> world \<Rightarrow> query_result \<times> world" where
  "execute_query e drv sql w =
     (let r = drv (contacts w) sql;
          w1 = w\<lparr>contacts := Suc (contacts w)\<rparr>;
          w2 = w1\<lparr>held := Suc (held w1), sent := sent w1 @ [PStr sql]\<rparr>;
          w3 = w2\<lparr>held := held w2 - 1\<rparr>;
          sql_lower = str_lower e (str_strip e sql)
      in (case acquire_exn r of
            Some x \<Rightarrow> (Failure x sql, w1)
          | None \<Rightarrow>
              (if startswith sql_lower ''select'' \<or> startswith sql_lower ''with'' then
                 (case fetch_res r of
                    Inl x \<Rightarrow> (Failure x sql, w3)
                  | Inr rows \<Rightarrow>
                      (let results = map convert_row rows
                       in (Rows results (int (length results)), w3)))
               else
                 (case execute_res r of
                    Inl x \<Rightarrow> (Failure x sql, w3)
                  | Inr result \<Rightarrow>
                      (case row_count_of e result of
                         Inl x \<Rightarrow> (Failure x sql, w3)
                       | Inr row_count \<Rightarrow> (Modification result row_count, w3))))))"

definition nl :: string where
  "nl = [CHR 0x0A]"

text \<open>The text \<^verbatim>\<open>execute_sql\<close> builds from the outcome.\<close>

definition render :: "env \<Rightarrow> query_result \<Rightarrow> string" where
  "render e result =
     (case result of
        Rows rows n \<Rightarrow>
          ''Query executed successfully.'' @ nl @
          ''Returned '' @ show_int n @ '' rows.'' @ nl @ nl @
          (if rows \<noteq> [] then
             (if length rows \<le> 100 then
                ''Results:'' @ nl @ dumps e (PList (map PDict rows))
              else
                ''Large result set ('' @ show_nat (length rows) @ '' rows). Showing first 10:'' @ nl @
                dumps e (PList (map PDict (take 10 rows))) @
                nl @ ''... and '' @ show_nat (length rows - 10) @ '' more rows'')
           else ''No rows returned.'')
      | Modification message n \<Rightarrow>
          ''Query executed successfully.'' @ nl @ message @ nl @
          ''Affected rows: '' @ show_int n
      | Failure err q \<Rightarrow> ''Query failed: '' @ err @ nl @ ''SQL: '' @ q)"

definition execute_sql ::
  "env \<Rightarrow> pool_driver \<Rightarrow> string \<Rightarrow> bool \<Rightarrow> world \<Rightarrow> string \<times> world" where
  "execute_sql e drv sql explain_plan w =
     (if str_strip e sql = [] then (''Error: No SQL query provided'', w)
      else
        (let sql' = (if explain_plan \<and> startswith (str_strip e (str_lower e sql)) ''select''
                     then ''EXPLAIN ANALYZE '' @ sql else sql);
             (result, w') = execute_query e drv sql' w
         in (render e result, w')))"

section \<open>Examples\<close>

text \<open>
  Concrete parameters for evaluating the servers on examples. The parser is given by a
  table from line text to outcome (a text the table lacks is a JSONDecodeError). The
  example lines and statements are lower-case ASCII without white space around them, so
  \<^verbatim>\<open>strip\<close> and \<^verbatim>\<open>lower\<close> leave them as they are; \<^verbatim>\<open>split\<close>, \<^verbatim>\<open>isdigit\<close> and
  \<^verbatim>\<open>int\<close> are given on the one status text the examples use.
\<close>

definition example_env :: "(string \<times> parse) list \<Rightarrow> env" where
  "example_env table =
     \<lparr>loads = (\<lambda>s. case map_of table s of None \<Rightarrow> DecodeError | Some p \<Rightarrow> p),
      dumps = (\<lambda>v. []), repr_of = (\<lambda>v. []), unsliceable = (\<lambda>v. []),
      str_strip = (\<lambda>s. s),
      str_lower = (\<lambda>s. s),
      str_split = (\<lambda>s. case map_of [(''UPDATE 3'', [''UPDATE'', ''3''])] s of
                          None \<Rightarrow> [] | Some ps \<Rightarrow> ps),
      str_isdigit = (\<lambda>s. s = ''3''),
      int_of_str = (\<lambda>s. if s = ''3'' then Inr 3 else Inl ''invalid literal for int()'')\<rparr>"

definition w0 :: world where
  "w0 = \<lparr>contacts = 0, held = 0, sent = []\<rparr>"

definition pg_const :: "pg_run \<Rightarrow> pg_driver" where
  "pg_const r = (\<lambda>n sql. r)"

definition pool_const :: "pool_run \<Rightarrow> pool_driver" where
  "pool_const r = (\<lambda>n sql. r)"

definition pg_ok :: pg_run where
  "pg_ok = \<lparr>connect_exn = None, execute_exn = None,
            fetched = Inr ([''n''], [[PInt 1]]), commit_exn = None\<rparr>"

definition pg_down :: pg_run where
  "pg_down = \<lparr>connect_exn = Some ''connection refused'', execute_exn = None,
              fetched = Inr ([], []), commit_exn = None\<rparr>"

definition pg_syntax_error :: pg_run where
  "pg_syntax_error = \<lparr>connect_exn = None, execute_exn = Some ''syntax error'',
                      fetched = Inr ([], []), commit_exn = None\<rparr>"

definition pool_ok :: pool_run where
  "pool_ok = \<lparr>acquire_exn = None, fetch_res = Inr [[(''n'', PInt 1)]],
              execute_res = Inr ''UPDATE 3''\<rparr>"

definition pool_failing :: pool_run where
  "pool_failing = \<lparr>acquire_exn = None, fetch_res = Inl ''relation does not exist'',
                   execute_res = Inl ''relation does not exist''\<rparr>"

section \<open>Frames\<close>

lemma result_frame_keys:
  "map_of (result_frame i r) ''id'' = Some i"
  "map_of (result_frame i r) ''result'' = Some r"
  "map_of (result_frame i r) ''error'' = None"
  "distinct (map fst (result_frame i r))"
  by (simp_all add: result_frame_def)

lemma error_frame_keys:
  "map_of (error_frame i c m) ''id'' = Some i"
  "map_of (error_frame i c m) ''result'' = None"
  "map_of (error_frame i c m) ''error'' = Some (PDict [(''code'', PInt c), (''message'', PStr m)])"
  "distinct (map fst (error_frame i c m))"
  by (simp_all add: error_frame_def)

section \<open>Requests with an id\<close>

lemma handle_tools_call_answers:
  assumes "map_of req ''id'' = Some i" "handle_tools_call e drv req w = (Inr resp, w')"
  shows "(\<exists>r. resp = result_frame i r) \<or> (\<exists>c m. resp = error_frame i c m)"
  using assms
  by (auto simp: handle_tools_call_def getitem_def Let_def
           split: sum.splits option.splits if_splits prod.splits)

lemma dispatch_answers:
  assumes "map_of req ''id'' = Some i" "i \<noteq> PNone"
    "dispatch e drv (PDict req) w = (Inr frames, w')"
  shows "\<exists>frame. frames = [frame] \<and>
           ((\<exists>r. frame = result_frame i r) \<or> (\<exists>c m. frame = error_frame i c m))"
  using assms handle_tools_call_answers[of req i e drv w]
  by (auto simp: dispatch_def py_get_def handle_initialize_def handle_tools_list_def getitem_def
                 send_error_response_def
           split: sum.splits option.splits if_splits prod.splits)

lemma process_line_answers:
  assumes "str_strip e line \<noteq> []" "loads e (str_strip e line) = Parsed (PDict req)"
    "map_of req ''id'' = Some i" "i \<noteq> PNone"
  shows "\<exists>frame w'. process_line e drv bound line w = (Printed [frame] (Some (PDict req)), w') \<and>
           ((\<exists>r. frame = result_frame i r) \<or> (\<exists>c m. frame = error_frame i c m))"
proof (cases "dispatch e drv (PDict req) w")
  case (Pair r w')
  show ?thesis
  proof (cases r)
    case (Inl x)
    with Pair assms show ?thesis
      by (auto simp add: process_line_def Let_def req_id_of_def)
  next
    case (Inr frames)
    with Pair assms dispatch_answers[of req i e drv w frames w'] show ?thesis
      by (auto simp add: process_line_def Let_def)
  qed
qed

text \<open>
  C1. A line that parses to a request object whose \<^verbatim>\<open>id\<close> is present and not null
  makes the loop write exactly one frame; the frame's \<^verbatim>\<open>id\<close> is the request's id
  itself, and the frame has exactly one of the keys \<^verbatim>\<open>result\<close> and \<^verbatim>\<open>error\<close>.
  This holds whatever the method and the parameters are, whatever the database does and
  whatever earlier lines were.
\<close>

theorem request_answered_once:
  assumes "str_strip e line \<noteq> []" "loads e (str_strip e line) = Parsed (PDict req)"
    "map_of req ''id'' = Some i" "i \<noteq> PNone"
  shows "\<exists>frame w'. process_line e drv bound line w = (Printed [frame] (Some (PDict req)), w') \<and>
           map_of frame ''id'' = Some i \<and> distinct (map fst frame) \<and>
           (map_of frame ''result'' = None) \<noteq> (map_of frame ''error'' = None)"
proof -
  obtain frame w' where f: "process_line e drv bound line w = (Printed [frame] (Some (PDict req)), w')"
    and shape: "(\<exists>r. frame = result_frame i r) \<or> (\<exists>c m. frame = error_frame i c m)"
    using process_line_answers[OF assms] by blast
  from shape have "map_of frame ''id'' = Some i \<and> distinct (map fst frame) \<and>
      (map_of frame ''result'' = None) \<noteq> (map_of frame ''error'' = None)"
    by (auto simp: result_frame_keys error_frame_keys)
  with f show ?thesis by blast
qed

theorem request_answered_once_witness:
  "\<exists>frame w'.
     process_line
       (example_env [(''call'', Parsed (
          PDict [(''id'', PStr ''a-7''), (''method'', PStr ''tools/call''),
                 (''params'', PDict [(''name'', PStr ''query_database''),
                                     (''arguments'', PDict [(''sql'', PStr ''select 1'')])])]))])
       (pg_const pg_down) None ''call'' w0
     = (Printed [frame] (Some (
          PDict [(''id'', PStr ''a-7''), (''method'', PStr ''tools/call''),
                 (''params'', PDict [(''name'', PStr ''query_database''),
                                     (''arguments'', PDict [(''sql'', PStr ''select 1'')])])])), w') \<and>
     map_of frame ''id'' = Some (PStr ''a-7'') \<and> distinct (map fst frame) \<and>
     (map_of frame ''result'' = None) \<noteq> (map_of frame ''error'' = None)"
proof -
  let ?req = "[(''id'', PStr ''a-7''), (''method'', PStr ''tools/call''),
               (''params'', PDict [(''name'', PStr ''query_database''),
                                   (''arguments'', PDict [(''sql'', PStr ''select 1'')])])]"
  let ?e = "example_env [(''call'', Parsed (PDict ?req))]"
  have h1: "str_strip ?e ''call'' \<noteq> []"
    by (simp add: example_env_def)
  have h2: "loads ?e (str_strip ?e ''call'') = Parsed (PDict ?req)"
    by (simp add: example_env_def)
  have h3: "map_of ?req ''id'' = Some (PStr ''a-7'')"
    by simp
  have h4: "PStr ''a-7'' \<noteq> PNone"
    by simp
  show ?thesis
    using request_answered_once[of ?e "''call''" ?req "PStr ''a-7''" "pg_const pg_down" None w0]
      h1 h2 h3 h4 by blast
qed

section \<open>Notifications\<close>

lemma handle_tools_call_notification:
  assumes "map_of req ''id'' = None"
  shows "\<exists>x w'. handle_tools_call e drv req w = (Inl x, w')"
  using assms
  by (auto simp: handle_tools_call_def getitem_def Let_def
           split: sum.splits option.splits if_splits prod.splits)

lemma dispatch_notification_known:
  assumes "map_of req ''id'' = None" "map_of req ''method'' = Some (PStr m)"
    "m \<in> set [''initialize'', ''tools/list'', ''tools/call'', ''resources/list'', ''prompts/list'']"
  shows "\<exists>x w'. dispatch e drv (PDict req) w = (Inl x, w')"
  using assms handle_tools_call_notification[OF assms(1), of e drv w]
  by (auto simp: dispatch_def py_get_def handle_initialize_def handle_tools_list_def getitem_def)

text \<open>
  C2. A notification (a request object without \<^verbatim>\<open>id\<close>) whose method is one of the five
  in the table is not dropped: every handler reads \<^verbatim>\<open>req["id"]\<close>, the KeyError
  (or an earlier AttributeError in \<^verbatim>\<open>handle_tools_call\<close>) reaches
  \<^verbatim>\<open>except Exception\<close> in \<^verbatim>\<open>main\<close>, and one frame with code -32603 and a null id is
  written. Only a notification with an unknown method is silent
  (\<open>notification_unknown_method_silent\<close> below), as the comment in
  \<^verbatim>\<open>send_error_response\<close> says notifications should be.
\<close>

theorem notification_known_method_answered:
  assumes "str_strip e line \<noteq> []" "loads e (str_strip e line) = Parsed (PDict req)"
    "map_of req ''id'' = None" "map_of req ''method'' = Some (PStr m)"
    "m \<in> set [''initialize'', ''tools/list'', ''tools/call'', ''resources/list'', ''prompts/list'']"
  shows "\<exists>x w'. process_line e drv bound line w =
           (Printed [error_frame PNone (- 32603) (''Internal error: '' @ x)] (Some (PDict req)), w')"
proof -
  obtain x w' where "dispatch e drv (PDict req) w = (Inl x, w')"
    using dispatch_notification_known[OF assms(3,4,5)] by blast
  with assms(1,2,3) show ?thesis
    by (auto simp: process_line_def Let_def req_id_of_def)
qed

theorem notification_known_method_answered_witness:
  "process_line
     (example_env [(''init'', Parsed (PDict [(''jsonrpc'', PStr ''2.0''), (''method'', PStr ''initialize'')]))])
     (pg_const pg_down) None ''init'' w0
   = (Printed [error_frame PNone (- 32603) (''Internal error: '' @ quote ''id'')]
        (Some (PDict [(''jsonrpc'', PStr ''2.0''), (''method'', PStr ''initialize'')])), w0)"
proof -
  let ?req = "[(''jsonrpc'', PStr ''2.0''), (''method'', PStr ''initialize'')]"
  let ?e = "example_env [(''init'', Parsed (PDict ?req))]"
  have h1: "str_strip ?e ''init'' \<noteq> []"
    by (simp add: example_env_def)
  have h2: "loads ?e (str_strip ?e ''init'') = Parsed (PDict ?req)"
    by (simp add: example_env_def)
  have h3: "map_of ?req ''id'' = None" by simp
  have h4: "map_of ?req ''method'' = Some (PStr ''initialize'')" by simp
  have h5: "''initialize'' \<in> set [''initialize'', ''tools/list'', ''tools/call'', ''resources/list'', ''prompts/list'']"
    by simp
  show ?thesis
    using notification_known_method_answered[OF h1 h2 h3 h4 h5, of "pg_const pg_down" None w0]
    by (simp add: process_line_def Let_def example_env_def dispatch_def
        py_get_def handle_initialize_def getitem_def req_id_of_def)
qed

lemma notification_unknown_method_silent:
  assumes "str_strip e line \<noteq> []" "loads e (str_strip e line) = Parsed (PDict req)"
    "map_of req ''id'' = None"
    "map_of req ''method'' \<notin> set (map (Some \<circ> PStr)
        [''initialize'', ''tools/list'', ''tools/call'', ''resources/list'', ''prompts/list''])"
  shows "process_line e drv bound line w = (Printed [] (Some (PDict req)), w)"
  using assms
  by (auto simp: process_line_def Let_def dispatch_def py_get_def send_error_response_def
      split: option.splits)

section \<open>Unknown methods\<close>

text \<open>
  C8. A request object with a non-null \<^verbatim>\<open>id\<close> whose method is none of
  \<^verbatim>\<open>initialize\<close>, \<^verbatim>\<open>tools/list\<close>, \<^verbatim>\<open>tools/call\<close>, \<^verbatim>\<open>resources/list\<close>,
  \<^verbatim>\<open>prompts/list\<close> (also a missing method, or one that is not a string) is answered
  by exactly one frame with code -32601 and the request's id; the database is not touched.
\<close>

theorem unknown_method_not_found:
  assumes "str_strip e line \<noteq> []" "loads e (str_strip e line) = Parsed (PDict req)"
    "map_of req ''id'' = Some i" "i \<noteq> PNone"
    "map_of req ''method'' \<notin> set (map (Some \<circ> PStr)
        [''initialize'', ''tools/list'', ''tools/call'', ''resources/list'', ''prompts/list''])"
  shows "process_line e drv bound line w =
           (Printed [error_frame i (- 32601)
               (''Method '' @ py_str e (case map_of req ''method'' of None \<Rightarrow> PNone | Some m \<Rightarrow> m)
                 @ '' not found.'')] (Some (PDict req)), w)"
  using assms
  by (auto simp: process_line_def Let_def dispatch_def py_get_def send_error_response_def
      split: option.splits)

theorem unknown_method_not_found_witness:
  "process_line
     (example_env [(''ping'', Parsed (PDict [(''id'', PInt 3), (''method'', PStr ''ping'')]))])
     (pg_const pg_down) None ''ping'' w0
   = (Printed [error_frame (PInt 3) (- 32601) ''Method ping not found.'']
        (Some (PDict [(''id'', PInt 3), (''method'', PStr ''ping'')])), w0)"
proof -
  let ?req = "[(''id'', PInt 3), (''method'', PStr ''ping'')]"
  let ?e = "example_env [(''ping'', Parsed (PDict ?req))]"
  have h1: "str_strip ?e ''ping'' \<noteq> []"
    by (simp add: example_env_def)
  have h2: "loads ?e (str_strip ?e ''ping'') = Parsed (PDict ?req)"
    by (simp add: example_env_def)
  have h3: "map_of ?req ''id'' = Some (PInt 3)" by simp
  have h4: "PInt 3 \<noteq> PNone" by simp
  have h5: "map_of ?req ''method'' \<notin> set (map (Some \<circ> PStr)
        [''initialize'', ''tools/list'', ''tools/call'', ''resources/list'', ''prompts/list''])"
    by simp
  show ?thesis
    using unknown_method_not_found[OF h1 h2 h3 h4 h5, of "pg_const pg_down" None w0]
    by (simp add: py_str_def)
qed

section \<open>The missing \<^verbatim>\<open>sql\<close> argument\<close>

text \<open>
  C10. In \<^verbatim>\<open>handle_tools_call\<close>, for the tool \<^verbatim>\<open>query_database\<close> and a request with
  an id, an \<^verbatim>\<open>arguments\<close> object without \<^verbatim>\<open>sql\<close> and one whose \<^verbatim>\<open>sql\<close> is the empty
  string get the same response, the -32602 error
  \<^verbatim>\<open>Missing required parameter: sql\<close> with the request's id, and the world is
  unchanged: the driver is never called.
\<close>

theorem missing_sql_rejected:
  assumes "map_of req ''id'' = Some i"
    "map_of req ''params'' = Some (PDict params)"
    "map_of params ''name'' = Some (PStr ''query_database'')"
    "map_of params ''arguments'' = Some (PDict args)"
    "map_of args ''sql'' = None \<or> map_of args ''sql'' = Some (PStr [])"
  shows "handle_tools_call e drv req w =
           (Inr (error_frame i (- 32602) ''Missing required parameter: sql''), w)"
  using assms
  by (auto simp: handle_tools_call_def py_get_def getitem_def)

theorem missing_sql_rejected_witness:
  "handle_tools_call (example_env []) (pg_const pg_ok)
     [(''id'', PInt 1),
      (''params'', PDict [(''name'', PStr ''query_database''),
                          (''arguments'', PDict [(''sql'', PStr [])])])] w0
   = (Inr (error_frame (PInt 1) (- 32602) ''Missing required parameter: sql''), w0)
   \<and>
   handle_tools_call (example_env []) (pg_const pg_ok)
     [(''id'', PInt 1),
      (''params'', PDict [(''name'', PStr ''query_database''),
                          (''arguments'', PDict [])])] w0
   = (Inr (error_frame (PInt 1) (- 32602) ''Missing required parameter: sql''), w0)"
proof -
  let ?p1 = "[(''name'', PStr ''query_database''), (''arguments'', PDict [(''sql'', PStr [])])]"
  let ?p2 = "[(''name'', PStr ''query_database''), (''arguments'', PDict [])]"
  have a: "handle_tools_call (example_env []) (pg_const pg_ok)
     [(''id'', PInt 1), (''params'', PDict ?p1)] w0
     = (Inr (error_frame (PInt 1) (- 32602) ''Missing required parameter: sql''), w0)"
    using missing_sql_rejected[of "[(''id'', PInt 1), (''params'', PDict ?p1)]" "PInt 1" ?p1
        "[(''sql'', PStr [])]" "example_env []" "pg_const pg_ok" w0]
    by simp
  have b: "handle_tools_call (example_env []) (pg_const pg_ok)
     [(''id'', PInt 1), (''params'', PDict ?p2)] w0
     = (Inr (error_frame (PInt 1) (- 32602) ''Missing required parameter: sql''), w0)"
    using missing_sql_rejected[of "[(''id'', PInt 1), (''params'', PDict ?p2)]" "PInt 1" ?p2
        "[]" "example_env []" "pg_const pg_ok" w0]
    by simp
  from a b show ?thesis by simp
qed

section \<open>Lines the parser refuses\<close>

lemma blank_line_skipped:
  assumes "line \<noteq> []" "str_strip e line = []"
  shows "main_loop e drv bound (line # rest) w = main_loop e drv bound rest w"
  using assms by (simp add: process_line_def Let_def split: prod.splits)

lemma decode_error_reported:
  assumes "line \<noteq> []" "str_strip e line \<noteq> []" "loads e (str_strip e line) = DecodeError"
  shows "main_loop e drv bound (line # rest) w =
           (error_frame PNone (- 32700) ''Parse error'' # fst (main_loop e drv bound rest w),
            snd (main_loop e drv bound rest w))"
  using assms by (simp add: process_line_def Let_def split: prod.splits)

text \<open>
  C6. A line on which \<^verbatim>\<open>json.loads\<close> raises JSONDecodeError gets the frame with code
  -32700 and a null id, and the loop goes on (\<open>decode_error_reported\<close>). But
  \<^verbatim>\<open>json.loads\<close> refuses some lines that are not valid JSON, such as a long run of
  opening brackets, with another exception. Such a line gets no -32700 frame: as the
  first line it ends the loop with an uncaught UnboundLocalError and nothing after it is
  read; after an earlier parsed line it gets a -32603 frame carrying the id of that
  earlier request.
\<close>

theorem parser_fault_not_a_parse_error:
  assumes "line \<noteq> []" "str_strip e line \<noteq> []" "loads e (str_strip e line) = Fault x"
  shows "main_loop e drv None (line # rest) w = ([], Crashed, w) \<and>
         process_line e drv (Some old) line w =
           (Printed [error_frame (req_id_of old) (- 32603) (''Internal error: '' @ x)] (Some old), w)"
  using assms by (simp add: process_line_def Let_def)

theorem parser_fault_not_a_parse_error_witness:
  "main (example_env [(replicate 1000 (CHR ''[''), Fault ''maximum recursion depth exceeded''),
                      (''list'', Parsed (PDict [(''id'', PInt 2), (''method'', PStr ''tools/list'')]))])
     (pg_const pg_down) [replicate 1000 (CHR ''[''), ''list''] w0
   = ([], Crashed, w0) \<and>
   process_line
     (example_env [(replicate 1000 (CHR ''[''), Fault ''maximum recursion depth exceeded''),
                   (''list'', Parsed (PDict [(''id'', PInt 2), (''method'', PStr ''tools/list'')]))])
     (pg_const pg_down) (Some (PDict [(''id'', PInt 2), (''method'', PStr ''tools/list'')]))
     (replicate 1000 (CHR ''['')) w0
   = (Printed [error_frame (PInt 2) (- 32603) ''Internal error: maximum recursion depth exceeded'']
        (Some (PDict [(''id'', PInt 2), (''method'', PStr ''tools/list'')])), w0)"
proof -
  let ?deep = "replicate 1000 (CHR ''['')"
  let ?old = "PDict [(''id'', PInt 2), (''method'', PStr ''tools/list'')]"
  let ?e = "example_env [(?deep, Fault ''maximum recursion depth exceeded''), (''list'', Parsed ?old)]"
  have h1: "?deep \<noteq> []" by simp
  have h2: "str_strip ?e ?deep \<noteq> []"
    by (simp add: example_env_def)
  have h3: "loads ?e (str_strip ?e ?deep) = Fault ''maximum recursion depth exceeded''"
    by (simp add: example_env_def)
  show ?thesis
    using parser_fault_not_a_parse_error[OF h1 h2 h3, of "pg_const pg_down" "[''list'']" w0 ?old]
    by (simp add: main_def req_id_of_def)
qed

section \<open>The query executors\<close>

lemma execute_query_sent:
  assumes "acquire_exn (drv (contacts w) sql) = None"
  shows "sent (snd (execute_query e drv sql w)) = sent w @ [PStr sql]"
  using assms by (simp add: execute_query_def Let_def split: sum.splits)

text \<open>
  C3, as amended. Once a connection is there, \<^verbatim>\<open>execute_query\<close> takes the fetch path
  exactly when the trimmed, lower-cased text starts with \<^verbatim>\<open>select\<close> or \<^verbatim>\<open>with\<close>, and
  the modification path otherwise; \<^verbatim>\<open>query_db\<close> takes the fetch path exactly when it
  starts with \<^verbatim>\<open>select\<close>, and the modification path (commit) otherwise, also for a
  text starting with \<^verbatim>\<open>with\<close>. Nothing else of the text is looked at.
\<close>

theorem leading_keyword_selects_path:
  "(acquire_exn (drv (contacts w) sql) = None \<longrightarrow>
      fst (execute_query e drv sql w) =
        (if startswith (str_lower e (str_strip e sql)) ''select'' \<or>
            startswith (str_lower e (str_strip e sql)) ''with''
         then (case fetch_res (drv (contacts w) sql) of
                 Inl x \<Rightarrow> Failure x sql
               | Inr rows \<Rightarrow> Rows (map convert_row rows) (int (length rows)))
         else (case execute_res (drv (contacts w) sql) of
                 Inl x \<Rightarrow> Failure x sql
               | Inr st \<Rightarrow>
                   (case row_count_of e st of
                      Inl x \<Rightarrow> Failure x sql
                    | Inr n \<Rightarrow> Modification st n))))
   \<and>
   (connect_exn (pdrv (contacts w) (PStr sql)) = None \<and>
    execute_exn (pdrv (contacts w) (PStr sql)) = None \<longrightarrow>
      fst (query_db e pdrv (PStr sql) w) =
        (if startswith (str_lower e (str_strip e sql)) ''select''
         then (case fetched (pdrv (contacts w) (PStr sql)) of
                 Inl x \<Rightarrow> qerror x
               | Inr (cols, rows) \<Rightarrow>
                   [(''result'', PList (map (\<lambda>row. PDict (py_dict (zip cols row))) rows))])
         else (case commit_exn (pdrv (contacts w) (PStr sql)) of
                 Some x \<Rightarrow> qerror x
               | None \<Rightarrow> [(''result'', PDict [(''status'', PStr ''Query executed successfully'')])])))"
  by (simp add: execute_query_def query_db_def sliceable_def Let_def
      split: sum.splits option.splits prod.splits)

theorem leading_keyword_selects_path_witness:
  "fst (execute_query (example_env []) (pool_const pool_ok)
          ''with t as (select 1) select * from t'' w0)
     = Rows [[(''n'', PInt 1)]] 1
   \<and> fst (query_db (example_env []) (pg_const pg_ok)
            (PStr ''with t as (select 1) select * from t'') w0)
     = [(''result'', PDict [(''status'', PStr ''Query executed successfully'')])]"
  using leading_keyword_selects_path[of "pool_const pool_ok" w0
      "''with t as (select 1) select * from t''" "example_env []" "pg_const pg_ok"]
  by (simp add: example_env_def startswith_def pool_const_def pool_ok_def pg_const_def pg_ok_def
      convert_row_def)

text \<open>
  The claim as stated fails for \<^verbatim>\<open>query_db\<close>: a statement starting with \<^verbatim>\<open>with\<close>,
  on a driver where every step succeeds, is committed and answered with the status
  object, not with the rows.
\<close>

theorem with_statement_counterexample:
  "\<not> (\<forall>e drv sql w cols rows.
        connect_exn (drv (contacts w) (PStr sql)) = None \<and>
        execute_exn (drv (contacts w) (PStr sql)) = None \<and>
        fetched (drv (contacts w) (PStr sql)) = Inr (cols, rows) \<and>
        commit_exn (drv (contacts w) (PStr sql)) = None \<and>
        (startswith (str_lower e (str_strip e sql)) ''select'' \<or>
         startswith (str_lower e (str_strip e sql)) ''with'') \<longrightarrow>
        fst (query_db e drv (PStr sql) w) =
          [(''result'', PList (map (\<lambda>row. PDict (py_dict (zip cols row))) rows))])"
proof
  assume a: "\<forall>e drv sql w cols rows.
        connect_exn (drv (contacts w) (PStr sql)) = None \<and>
        execute_exn (drv (contacts w) (PStr sql)) = None \<and>
        fetched (drv (contacts w) (PStr sql)) = Inr (cols, rows) \<and>
        commit_exn (drv (contacts w) (PStr sql)) = None \<and>
        (startswith (str_lower e (str_strip e sql)) ''select'' \<or>
         startswith (str_lower e (str_strip e sql)) ''with'') \<longrightarrow>
        fst (query_db e drv (PStr sql) w) =
          [(''result'', PList (map (\<lambda>row. PDict (py_dict (zip cols row))) rows))]"
  let ?sql = "''with t as (select 1) select * from t''"
  let ?e = "example_env []"
  have h: "connect_exn (pg_const pg_ok (contacts w0) (PStr ?sql)) = None \<and>
        execute_exn (pg_const pg_ok (contacts w0) (PStr ?sql)) = None \<and>
        fetched (pg_const pg_ok (contacts w0) (PStr ?sql)) = Inr ([''n''], [[PInt 1]]) \<and>
        commit_exn (pg_const pg_ok (contacts w0) (PStr ?sql)) = None \<and>
        (startswith (str_lower ?e (str_strip ?e ?sql)) ''select'' \<or>
         startswith (str_lower ?e (str_strip ?e ?sql)) ''with'')"
    by (simp add: example_env_def startswith_def pg_const_def pg_ok_def)
  have "fst (query_db ?e (pg_const pg_ok) (PStr ?sql) w0) =
          [(''result'', PList (map (\<lambda>row. PDict (py_dict (zip [''n''] row))) [[PInt 1]]))]"
    using a h by blast
  then show False
    by (simp add: query_db_def sliceable_def Let_def example_env_def startswith_def
        pg_const_def pg_ok_def)
qed

section \<open>Driver failures\<close>

text \<open>
  C4, as amended. Whatever step of the driver raises (getting the connection, fetching,
  executing, committing), the executor returns a failure outcome and raises nothing:
  \<^verbatim>\<open>execute_query\<close> returns \<open>Failure\<close> with the driver's error text and the original
  SQL text; \<^verbatim>\<open>query_db\<close> returns the object \<^verbatim>\<open>{"error": text}\<close>, with the driver's
  error text only.
\<close>

theorem driver_failure_becomes_outcome:
  assumes "r = drv (contacts w) sql" "pr = pdrv (contacts w) (PStr sql)"
  shows
    "(acquire_exn r = Some x \<longrightarrow> fst (execute_query e drv sql w) = Failure x sql) \<and>
     (acquire_exn r = None \<and>
      (startswith (str_lower e (str_strip e sql)) ''select'' \<or>
       startswith (str_lower e (str_strip e sql)) ''with'') \<and>
      fetch_res r = Inl x \<longrightarrow> fst (execute_query e drv sql w) = Failure x sql) \<and>
     (acquire_exn r = None \<and>
      \<not> (startswith (str_lower e (str_strip e sql)) ''select'' \<or>
         startswith (str_lower e (str_strip e sql)) ''with'') \<and>
      execute_res r = Inl x \<longrightarrow> fst (execute_query e drv sql w) = Failure x sql) \<and>
     (connect_exn pr = Some x \<longrightarrow> fst (query_db e pdrv (PStr sql) w) = [(''error'', PStr x)]) \<and>
     (connect_exn pr = None \<and> execute_exn pr = Some x \<longrightarrow>
        fst (query_db e pdrv (PStr sql) w) = [(''error'', PStr x)]) \<and>
     (connect_exn pr = None \<and> execute_exn pr = None \<and>
      startswith (str_lower e (str_strip e sql)) ''select'' \<and> fetched pr = Inl x \<longrightarrow>
        fst (query_db e pdrv (PStr sql) w) = [(''error'', PStr x)]) \<and>
     (connect_exn pr = None \<and> execute_exn pr = None \<and>
      \<not> startswith (str_lower e (str_strip e sql)) ''select'' \<and> commit_exn pr = Some x \<longrightarrow>
        fst (query_db e pdrv (PStr sql) w) = [(''error'', PStr x)])"
  using assms
  by (simp add: execute_query_def query_db_def sliceable_def qerror_def Let_def)

theorem driver_failure_becomes_outcome_witness:
  "fst (execute_query (example_env []) (pool_const pool_failing) ''delete from trips'' w0)
     = Failure ''relation does not exist'' ''delete from trips''
   \<and> fst (query_db (example_env []) (pg_const pg_syntax_error) (PStr ''delete from trips'') w0)
     = [(''error'', PStr ''syntax error'')]"
  using driver_failure_becomes_outcome[of pool_failing "pool_const pool_failing" w0
        "''delete from trips''" pg_syntax_error "pg_const pg_syntax_error"
        "''relation does not exist''" "example_env []"]
      driver_failure_becomes_outcome[of pool_failing "pool_const pool_failing" w0
        "''delete from trips''" pg_syntax_error "pg_const pg_syntax_error"
        "''syntax error''" "example_env []"]
  by (simp add: example_env_def startswith_def pool_const_def pool_failing_def pg_const_def
      pg_syntax_error_def)

text \<open>
  The claim as stated fails for \<^verbatim>\<open>query_db\<close>: when the connection is refused for
  \<^verbatim>\<open>select 1\<close>, the outcome holds the error text and the SQL text is not in it.
\<close>

theorem query_db_failure_without_sql_counterexample:
  "\<not> (\<forall>e drv sql w x.
        connect_exn (drv (contacts w) (PStr sql)) = Some x \<longrightarrow>
        PStr x \<in> snd ` set (fst (query_db e drv (PStr sql) w)) \<and>
        PStr sql \<in> snd ` set (fst (query_db e drv (PStr sql) w)))"
proof
  assume a: "\<forall>e drv sql w x.
        connect_exn (drv (contacts w) (PStr sql)) = Some x \<longrightarrow>
        PStr x \<in> snd ` set (fst (query_db e drv (PStr sql) w)) \<and>
        PStr sql \<in> snd ` set (fst (query_db e drv (PStr sql) w))"
  have h: "connect_exn (pg_const pg_down (contacts w0) (PStr ''select 1'')) = Some ''connection refused''"
    by (simp add: pg_const_def pg_down_def)
  have "PStr ''select 1'' \<in> snd ` set (fst (query_db (example_env []) (pg_const pg_down) (PStr ''select 1'') w0))"
    using a h by blast
  then show False
    by (simp add: query_db_def sliceable_def qerror_def Let_def pg_const_def pg_down_def)
qed

section \<open>Connections held\<close>

text \<open>
  C5. Whatever the SQL and whatever the driver does, as many connections are held after
  a query execution as before it. \<^verbatim>\<open>execute_query\<close> takes its connection in an
  \<^verbatim>\<open>async with\<close> block, which gives it back on every way out. \<^verbatim>\<open>query_db\<close> closes
  its connection with \<^verbatim>\<open>conn.close()\<close> when no step raises; when a step raises, the
  connection object dies with the call and is closed then.
\<close>

theorem connection_released:
  "held (snd (execute_query e pdrv s w)) = held w \<and>
   held (snd (query_db e drv sql w)) = held w"
  by (simp add: execute_query_def query_db_def Let_def
      split: option.splits sum.splits pyval.splits prod.splits)

section \<open>Affected rows\<close>

text \<open>
  C7. On the modification path of \<^verbatim>\<open>execute_query\<close> (the trimmed, lower-cased text
  starts with neither \<^verbatim>\<open>select\<close> nor \<^verbatim>\<open>with\<close>) with status text \<open>st\<close> from the
  driver: if \<open>st\<close> is not empty, \<^verbatim>\<open>st.split()\<close> has at least two tokens and the last
  one passes \<^verbatim>\<open>isdigit()\<close>, the outcome is \<open>Modification st n\<close> with \<open>n\<close> the number
  \<^verbatim>\<open>int\<close> reads from that token (and the failure outcome in case \<^verbatim>\<open>int\<close> rejects the
  token); if \<open>st\<close> is empty, has fewer than two tokens or its last token does not pass
  \<^verbatim>\<open>isdigit()\<close>, the outcome is \<open>Modification st 0\<close>.
\<close>

theorem affected_rows_from_status:
  assumes "acquire_exn (drv (contacts w) sql) = None"
    "\<not> (startswith (str_lower e (str_strip e sql)) ''select'' \<or>
        startswith (str_lower e (str_strip e sql)) ''with'')"
    "execute_res (drv (contacts w) sql) = Inr st"
  shows "(st \<noteq> [] \<and> 2 \<le> length (str_split e st) \<and> str_isdigit e (last (str_split e st)) \<longrightarrow>
            (\<forall>n. int_of_str e (last (str_split e st)) = Inr n \<longrightarrow>
                   fst (execute_query e drv sql w) = Modification st n) \<and>
            (\<forall>x. int_of_str e (last (str_split e st)) = Inl x \<longrightarrow>
                   fst (execute_query e drv sql w) = Failure x sql)) \<and>
         (st = [] \<or> length (str_split e st) < 2 \<or> \<not> str_isdigit e (last (str_split e st)) \<longrightarrow>
            fst (execute_query e drv sql w) = Modification st 0)"
  using assms
  by (auto simp: execute_query_def row_count_of_def Let_def)

theorem affected_rows_from_status_witness:
  "fst (execute_query (example_env []) (pool_const pool_ok) ''update trips set fare = 0'' w0)
     = Modification ''UPDATE 3'' 3"
proof -
  let ?sql = "''update trips set fare = 0''"
  let ?e = "example_env []"
  have h1: "acquire_exn (pool_const pool_ok (contacts w0) ?sql) = None"
    by (simp add: pool_const_def pool_ok_def)
  have h2: "\<not> (startswith (str_lower ?e (str_strip ?e ?sql)) ''select'' \<or>
              startswith (str_lower ?e (str_strip ?e ?sql)) ''with'')"
    by (simp add: example_env_def startswith_def)
  have h3: "execute_res (pool_const pool_ok (contacts w0) ?sql) = Inr ''UPDATE 3''"
    by (simp add: pool_const_def pool_ok_def)
  have t: "''UPDATE 3'' \<noteq> [] \<and> 2 \<le> length (str_split ?e ''UPDATE 3'') \<and>
           str_isdigit ?e (last (str_split ?e ''UPDATE 3''))"
    by (simp add: example_env_def)
  have i: "int_of_str ?e (last (str_split ?e ''UPDATE 3'')) = Inr 3"
    by (simp add: example_env_def)
  show ?thesis
    using h1 h2 h3 t i
      affected_rows_from_status[of "pool_const pool_ok" w0 ?sql ?e "''UPDATE 3''"]
    by blast
qed

section \<open>The explain flag\<close>

lemma with_is_not_select:
  "startswith s ''with'' \<Longrightarrow> \<not> startswith s ''select''"
  by (cases s) (auto simp: startswith_def)

lemma execute_sql_sent:
  assumes "str_strip e sql \<noteq> []" "\<forall>s. acquire_exn (drv (contacts w) s) = None"
  shows "sent (snd (execute_sql e drv sql explain_plan w)) =
           sent w @ [PStr (if explain_plan \<and> startswith (str_strip e (str_lower e sql)) ''select''
                           then ''EXPLAIN ANALYZE '' @ sql else sql)]"
proof -
  let ?q = "if explain_plan \<and> startswith (str_strip e (str_lower e sql)) ''select''
            then ''EXPLAIN ANALYZE '' @ sql else sql"
  have "execute_sql e drv sql explain_plan w =
          (render e (fst (execute_query e drv ?q w)), snd (execute_query e drv ?q w))"
    using assms(1) by (simp add: execute_sql_def Let_def split: prod.splits)
  moreover have "sent (snd (execute_query e drv ?q w)) = sent w @ [PStr ?q]"
    by (rule execute_query_sent) (simp add: assms(2))
  ultimately show ?thesis by simp
qed

text \<open>
  C9. With the flag set, a statement whose lower-cased, trimmed text starts with
  \<^verbatim>\<open>select\<close> reaches the engine as \<^verbatim>\<open>EXPLAIN ANALYZE\<close> followed by the text. A read
  that starts with \<^verbatim>\<open>with\<close>, which \<^verbatim>\<open>execute_query\<close> in the same file fetches rows
  for, is not rewritten: with the flag set it reaches the engine unchanged, as every
  statement that does not start with \<^verbatim>\<open>select\<close> does.
\<close>

theorem explain_skips_with_statements:
  assumes "str_strip e sql \<noteq> []" "\<forall>s. acquire_exn (drv (contacts w) s) = None"
    "startswith (str_strip e (str_lower e sql)) ''with''"
  shows "sent (snd (execute_sql e drv sql True w)) = sent w @ [PStr sql]"
proof -
  from assms(3) have "\<not> startswith (str_strip e (str_lower e sql)) ''select''"
    by (rule with_is_not_select)
  with assms(1,2) execute_sql_sent[of e sql drv w True] show ?thesis by simp
qed

theorem explain_skips_with_statements_witness:
  "sent (snd (execute_sql (example_env []) (pool_const pool_ok)
                ''with t as (select 1) select * from t'' True w0))
     = [PStr ''with t as (select 1) select * from t''] \<and>
   fst (execute_query (example_env []) (pool_const pool_ok)
          ''with t as (select 1) select * from t'' w0)
     = Rows [[(''n'', PInt 1)]] 1"
proof -
  let ?sql = "''with t as (select 1) select * from t''"
  let ?e = "example_env []"
  have h1: "str_strip ?e ?sql \<noteq> []"
    by (simp add: example_env_def)
  have h2: "\<forall>s. acquire_exn (pool_const pool_ok (contacts w0) s) = None"
    by (simp add: pool_const_def pool_ok_def)
  have h3: "startswith (str_strip ?e (str_lower ?e ?sql)) ''with''"
    by (simp add: example_env_def startswith_def)
  have r: "fst (execute_query ?e (pool_const pool_ok) ?sql w0) = Rows [[(''n'', PInt 1)]] 1"
    by (simp add: execute_query_def Let_def example_env_def startswith_def pool_const_def
        pool_ok_def convert_row_def)
  show ?thesis
    using h1 h2 h3 r
      explain_skips_with_statements[of ?e ?sql "pool_const pool_ok" w0]
    by (simp add: w0_def)
qed

lemma explain_rewrites_select:
  assumes "str_strip e sql \<noteq> []" "\<forall>s. acquire_exn (drv (contacts w) s) = None"
    "startswith (str_strip e (str_lower e sql)) ''select''"
  shows "sent (snd (execute_sql e drv sql True w)) = sent w @ [PStr (''EXPLAIN ANALYZE '' @ sql)]"
  using assms execute_sql_sent[of e sql drv w True] by simp

end
